theory Spec2Isabelle
  imports Main
begin

section \<open>Text\<close>

text \<open>
  A Python \<open>str\<close> is a sequence of Unicode code points, and \<open>len\<close>, slicing and the
  length bounds of the schema count code points. A text is therefore a list of code
  points; \<open>py\<close> turns an ASCII literal into one, and the few characters of the source
  outside ASCII are written by their code point.
\<close>

type_synonym pystr = "nat list"

definition py :: "string \<Rightarrow> pystr" where
  "py s = map of_char s"

text \<open>The line feed, and the two characters backslash, n that \<open>'\\n'\<close> denotes.\<close>

definition nl :: pystr where
  "nl = [10]"

definition backslash_n :: pystr where
  "backslash_n = [92, 110]"

text \<open>Decimal rendering of a number, as \<open>%d\<close> gives it, and zero padded to two places.\<close>

fun dec :: "nat \<Rightarrow> pystr" where
  "dec n = (if n < 10 then [48 + n] else dec (n div 10) @ [48 + n mod 10])"

declare dec.simps [simp del]

definition pad2 :: "nat \<Rightarrow> pystr" where
  "pad2 n = (if n < 10 then 48 # dec n else dec n)"

text \<open>The lines of a text: \<open>s.split('\n')\<close>.\<close>

fun split_nl :: "pystr \<Rightarrow> pystr list" where
  "split_nl [] = [[]]"
| "split_nl (c # cs) =
     (if c = 10 then [] # split_nl cs
      else (case split_nl cs of [] \<Rightarrow> [[c]] | l # ls \<Rightarrow> (c # l) # ls))"

section \<open>Exceptions\<close>

text \<open>
  An exception is its class, as far as an \<open>except\<close> clause of the source tells classes
  apart, and its message \<open>str(e)\<close>. All of them are subclasses of \<open>Exception\<close>.
\<close>

datatype exn = ImportError pystr | OverflowError pystr | TypeError pystr | Exception pystr

fun exn_str :: "exn \<Rightarrow> pystr" where
  "exn_str (ImportError m) = m"
| "exn_str (OverflowError m) = m"
| "exn_str (TypeError m) = m"
| "exn_str (Exception m) = m"

section \<open>Timestamps\<close>

text \<open>
  \<open>datetime.datetime\<close>: the calendar fields, and the UTC offset of an aware value in
  microseconds (\<open>None\<close> for a naive one).
\<close>

record datetime =
  year :: nat
  month :: nat
  day :: nat
  hour :: nat
  minute :: nat
  second :: nat
  microsecond :: nat
  tzinfo :: "int option"

definition is_leap :: "nat \<Rightarrow> bool" where
  "is_leap y = (y mod 4 = 0 \<and> (y mod 100 \<noteq> 0 \<or> y mod 400 = 0))"

definition days_in_month :: "nat \<Rightarrow> nat \<Rightarrow> nat" where
  "days_in_month y m =
     (if m = 2 then (if is_leap y then 29 else 28)
      else if m = 4 \<or> m = 6 \<or> m = 9 \<or> m = 11 then 30 else 31)"

definition days_before_year :: "nat \<Rightarrow> nat" where
  "days_before_year y = (y - 1) * 365 + (y - 1) div 4 - (y - 1) div 100 + (y - 1) div 400"

definition days_before_month :: "nat \<Rightarrow> nat \<Rightarrow> nat" where
  "days_before_month y m = sum_list (map (days_in_month y) [1..<m])"

definition ymd2ord :: "nat \<Rightarrow> nat \<Rightarrow> nat \<Rightarrow> nat" where
  "ymd2ord y m d = days_before_year y + days_before_month y m + d"

text \<open>The invariant of the type: what the constructor of \<open>datetime\<close> checks.\<close>

definition valid_datetime :: "datetime \<Rightarrow> bool" where
  "valid_datetime d =
     (1 \<le> year d \<and> year d \<le> 9999 \<and> 1 \<le> month d \<and> month d \<le> 12 \<and>
      1 \<le> day d \<and> day d \<le> days_in_month (year d) (month d) \<and>
      hour d < 24 \<and> minute d < 60 \<and> second d < 60 \<and> microsecond d < 1000000 \<and>
      (case tzinfo d of None \<Rightarrow> True
       | Some off \<Rightarrow> - 86400000000 < off \<and> off < 86400000000))"

text \<open>
  Seconds of the wall clock since the start of day 0 of the proleptic Gregorian
  calendar, through the ordinal of the date (\<open>toordinal\<close>).
\<close>

definition wall_seconds :: "datetime \<Rightarrow> nat" where
  "wall_seconds d =
     ymd2ord (year d) (month d) (day d) * 86400 + hour d * 3600 + minute d * 60 + second d"

text \<open>
  \<open>start + timedelta(hours=1)\<close>. The hour moves on by one; from 23 h the date moves to
  the next day, and past 9999-12-31 the addition raises \<open>OverflowError\<close>. The offset and
  the microseconds stay as they are.
\<close>

definition plus_one_hour :: "datetime \<Rightarrow> exn + datetime" where
  "plus_one_hour d =
     (if hour d < 23 then Inr (d\<lparr>hour := hour d + 1\<rparr>)
      else if day d < days_in_month (year d) (month d)
        then Inr (d\<lparr>day := day d + 1, hour := 0\<rparr>)
      else if month d < 12 then Inr (d\<lparr>month := month d + 1, day := 1, hour := 0\<rparr>)
      else if year d < 9999
        then Inr (d\<lparr>year := year d + 1, month := 1, day := 1, hour := 0\<rparr>)
      else Inl (OverflowError (py ''date value out of range'')))"

text \<open>
  \<open>strftime('%Y%m%dT%H%M%S')\<close>: two places for every field but the year, which the C
  library of Linux prints without padding. Neither the microseconds nor the offset
  are printed.
\<close>

definition strftime :: "datetime \<Rightarrow> pystr" where
  "strftime d =
     dec (year d) @ pad2 (month d) @ pad2 (day d) @ py ''T'' @
     pad2 (hour d) @ pad2 (minute d) @ pad2 (second d)"

subsection \<open>Parsing ISO text\<close>

text \<open>
  \<open>datetime.fromisoformat\<close> as CPython 3.11 implements it. It reads the calendar date
  \<open>YYYY-MM-DD\<close> or \<open>YYYYMMDD\<close> and the week date \<open>YYYY-Www[-D]\<close> or \<open>YYYYWww[D]\<close>, then
  any one character as separator, then the time \<open>HH[[:]MM[[:]SS[(.|,)f...]]]\<close> and an
  offset \<open>Z\<close> or \<open>(+|-)HH[[:]MM[[:]SS[(.|,)f...]]]\<close>. \<open>None\<close> is the \<open>ValueError\<close> of the
  library. The functions follow those of the library one by one.
\<close>

definition is_digit :: "nat \<Rightarrow> bool" where
  "is_digit c = (48 \<le> c \<and> c \<le> 57)"

text \<open>The character at a position; past the end the library reads the final NUL.\<close>

definition at :: "pystr \<Rightarrow> nat \<Rightarrow> nat" where
  "at s i = (case drop i s of [] \<Rightarrow> 0 | c # cs \<Rightarrow> c)"

text \<open>The number that the first \<open>n\<close> characters spell, when they are digits.\<close>

definition parse_digits :: "nat \<Rightarrow> pystr \<Rightarrow> nat option" where
  "parse_digits n s =
     (if n \<le> length s \<and> list_all is_digit (take n s)
      then Some (foldl (\<lambda>a c. 10 * a + (c - 48)) 0 (take n s)) else None)"

text \<open>
  \<open>_ord2ymd\<close>: the date of an ordinal, by cycles of 400, 100, 4 and 1 years. An
  ordinal below 1 gives a year below 1, which the constructor refuses later.
\<close>

definition month_days :: "bool \<Rightarrow> nat \<Rightarrow> nat" where
  "month_days leap m =
     (if m = 2 then (if leap then 29 else 28)
      else if m = 4 \<or> m = 6 \<or> m = 9 \<or> m = 11 then 30 else 31)"

definition ord2ymd :: "int \<Rightarrow> int \<times> nat \<times> nat" where
  "ord2ymd ordinal =
     (let n = ordinal - 1;
          n400 = n div 146097; r400 = n mod 146097;
          n100 = r400 div 36524; r100 = r400 mod 36524;
          n4 = r100 div 1461; r4 = r100 mod 1461;
          n1 = r4 div 365; r1 = nat (r4 mod 365);
          y = n400 * 400 + 1 + n100 * 100 + n4 * 4 + n1
      in if n1 = 4 \<or> n100 = 4 then (y - 1, 12, 31)
         else
           (let leap = (n1 = 3 \<and> (n4 \<noteq> 24 \<or> n100 = 3));
                m = (r1 + 50) div 32;
                preceding = sum_list (map (month_days leap) [1..<m])
            in if r1 < preceding
               then (y, m - 1, r1 + month_days leap (m - 1) - preceding + 1)
               else (y, m, r1 - preceding + 1)))"

text \<open>\<open>_isoweek1monday\<close> and \<open>_isoweek_to_gregorian\<close>: the date of a week date.\<close>

definition isoweek1monday :: "nat \<Rightarrow> int" where
  "isoweek1monday y =
     (let firstday = ymd2ord y 1 1;
          firstweekday = (firstday + 6) mod 7
      in int firstday - int firstweekday + (if 3 < firstweekday then 7 else 0))"

definition isoweek_to_gregorian :: "nat \<Rightarrow> nat \<Rightarrow> nat \<Rightarrow> (int \<times> nat \<times> nat) option" where
  "isoweek_to_gregorian y week d =
     (if \<not> (1 \<le> y \<and> y \<le> 9999) then None
      else if \<not> (0 < week \<and> week < 53) \<and>
              \<not> (week = 53 \<and> (ymd2ord y 1 1 mod 7 = 4 \<or> (ymd2ord y 1 1 mod 7 = 3 \<and> is_leap y)))
        then None
      else if \<not> (0 < d \<and> d < 8) then None
      else Some (ord2ymd (isoweek1monday y + int ((week - 1) * 7 + (d - 1)))))"

text \<open>
  \<open>_find_isoformat_datetime_separator\<close>, for a text of at least seven characters: the
  position of the character between date and time.
\<close>

definition find_separator :: "pystr \<Rightarrow> nat option" where
  "find_separator s =
     (let n = length s in
      if n = 7 then Some 7
      else if at s 4 = 45 then
        (if at s 5 = 87 then
           (if 8 < n \<and> at s 8 = 45 then
              (if n = 9 then None
               else if 10 < n \<and> is_digit (at s 10) then Some 8
               else Some 10)
            else Some 8)
         else Some 10)
      else if at s 4 = 87 then
        (let idx = 7 + length (takeWhile is_digit (drop 7 s))
         in if idx < 9 then Some idx else if even idx then Some 7 else Some 8)
      else Some 8)"

text \<open>
  \<open>parse_isoformat_date\<close>: the date that starts the text and ends before the
  separator.
\<close>

definition parse_isoformat_date :: "pystr \<Rightarrow> nat \<Rightarrow> (int \<times> nat \<times> nat) option" where
  "parse_isoformat_date s sep =
     (case parse_digits 4 s of
        None \<Rightarrow> None
      | Some y \<Rightarrow>
         (let uses_sep = (at s 4 = 45);
              p = (if uses_sep then 5 else 4)
          in if at s p = 87 then
               (case parse_digits 2 (drop (p + 1) s) of
                  None \<Rightarrow> None
                | Some week \<Rightarrow>
                    if p + 3 < sep then
                      (if uses_sep \<and> at s (p + 3) \<noteq> 45 then None
                       else (case parse_digits 1 (drop (if uses_sep then p + 4 else p + 3) s) of
                               None \<Rightarrow> None
                             | Some d \<Rightarrow> isoweek_to_gregorian y week d))
                    else isoweek_to_gregorian y week 1)
             else
               (case parse_digits 2 (drop p s) of
                  None \<Rightarrow> None
                | Some m \<Rightarrow>
                    if uses_sep \<and> at s (p + 2) \<noteq> 45 then None
                    else (case parse_digits 2 (drop (if uses_sep then p + 3 else p + 2) s) of
                            None \<Rightarrow> None
                          | Some d \<Rightarrow> Some (int y, m, d)))))"

text \<open>
  \<open>parse_hh_mm_ss_ff\<close> reads up to three components of two digits from a text of
  which \<open>k\<close> characters belong to the part at hand; what follows them is the offset.
  After a component it looks at the next character: the part may end there (and
  the character tells whether text is left), a colon leads to the next component
  when the first two were joined by one, a point or comma starts the fraction, and
  without colons the next component follows at once.
\<close>

datatype after = Stop bool | Next bool pystr int | Frac pystr int | Bad

definition after_component :: "bool \<Rightarrow> bool \<Rightarrow> pystr \<Rightarrow> int \<Rightarrow> after" where
  "after_component first has_sep r k =
     (let c = at r 0;
          has_sep' = (if first then c = 58 else has_sep)
      in if 128 \<le> c then Bad
         else if k - 1 \<le> 0 then Stop (c \<noteq> 0)
         else if has_sep' \<and> c = 58 then Next has_sep' (drop 1 r) (k - 1)
         else if c = 46 \<or> c = 44 then Frac (drop 1 r) (k - 1)
         else if \<not> has_sep' then Next has_sep' r k
         else Bad)"

text \<open>
  The fraction: up to six digits count, scaled to microseconds; further digits are
  skipped.
\<close>

definition parse_fraction ::
  "nat \<Rightarrow> nat \<Rightarrow> nat \<Rightarrow> pystr \<Rightarrow> int \<Rightarrow> (nat \<times> nat \<times> nat \<times> nat \<times> bool) option" where
  "parse_fraction h m sec r k =
     (let to_parse = (if 6 \<le> k then 6 else nat k) in
      case parse_digits to_parse r of
        None \<Rightarrow> None
      | Some f \<Rightarrow>
          Some (h, m, sec, f * 10 ^ (6 - to_parse),
                at (dropWhile is_digit (drop to_parse r)) 0 \<noteq> 0))"

definition parse_hh_mm_ss_ff ::
  "pystr \<Rightarrow> int \<Rightarrow> (nat \<times> nat \<times> nat \<times> nat \<times> bool) option" where
  "parse_hh_mm_ss_ff r k =
     (case parse_digits 2 r of
        None \<Rightarrow> None
      | Some h \<Rightarrow>
         (case after_component True True (drop 2 r) (k - 2) of
            Bad \<Rightarrow> None
          | Stop left \<Rightarrow> Some (h, 0, 0, 0, left)
          | Frac r' k' \<Rightarrow> parse_fraction h 0 0 r' k'
          | Next has_sep r2 k2 \<Rightarrow>
             (case parse_digits 2 r2 of
                None \<Rightarrow> None
              | Some m \<Rightarrow>
                 (case after_component False has_sep (drop 2 r2) (k2 - 2) of
                    Bad \<Rightarrow> None
                  | Stop left \<Rightarrow> Some (h, m, 0, 0, left)
                  | Frac r' k' \<Rightarrow> parse_fraction h m 0 r' k'
                  | Next has_sep' r3 k3 \<Rightarrow>
                     (case parse_digits 2 r3 of
                        None \<Rightarrow> None
                      | Some sec \<Rightarrow>
                         (case after_component False has_sep' (drop 2 r3) (k3 - 2) of
                            Bad \<Rightarrow> None
                          | Stop left \<Rightarrow> Some (h, m, sec, 0, left)
                          | Frac r' k' \<Rightarrow> parse_fraction h m sec r' k'
                          | Next has_sep'' r' k' \<Rightarrow> parse_fraction h m sec r' k'))))))"

text \<open>
  \<open>parse_isoformat_time\<close>: the offset starts at the first \<open>Z\<close>, \<open>+\<close> or \<open>-\<close>. An offset
  of less than a second is UTC; any other has the sign of its first character.
\<close>

definition is_tz_char :: "nat \<Rightarrow> bool" where
  "is_tz_char c = (c = 90 \<or> c = 43 \<or> c = 45)"

definition parse_isoformat_time ::
  "pystr \<Rightarrow> ((nat \<times> nat \<times> nat \<times> nat) \<times> int option) option" where
  "parse_isoformat_time t =
     (let time_part = takeWhile (\<lambda>c. \<not> is_tz_char c) t;
          tz_part = dropWhile (\<lambda>c. \<not> is_tz_char c) t
      in case parse_hh_mm_ss_ff t (int (length time_part)) of
           None \<Rightarrow> None
         | Some (h, m, sec, f, left) \<Rightarrow>
            (case tz_part of
               [] \<Rightarrow> if left then None else Some ((h, m, sec, f), None)
             | c # tz \<Rightarrow>
                 if c = 90 then (if at tz 0 \<noteq> 0 then None else Some ((h, m, sec, f), Some 0))
                 else
                   (case parse_hh_mm_ss_ff tz (int (length tz)) of
                      None \<Rightarrow> None
                    | Some (th, tm, ts, tf, left') \<Rightarrow>
                        if left' then None
                        else if (th * 60 + tm) * 60 + ts = 0 then Some ((h, m, sec, f), Some 0)
                        else
                          (let off = int (((th * 60 + tm) * 60 + ts) * 1000000 + tf)
                           in Some ((h, m, sec, f), Some (if c = 45 then - off else off))))))"

text \<open>
  \<open>fromisoformat\<close>: date, separator and time, and then the constructor, which checks
  the ranges of the fields and of the offset.
\<close>

definition fromisoformat :: "pystr \<Rightarrow> datetime option" where
  "fromisoformat s =
     (if length s < 7 then None
      else
        (case find_separator s of
           None \<Rightarrow> None
         | Some sep \<Rightarrow>
            (case parse_isoformat_date s sep of
               None \<Rightarrow> None
             | Some (y, m, d) \<Rightarrow>
                (case (if sep < length s then parse_isoformat_time (drop (sep + 1) s)
                       else Some ((0, 0, 0, 0), None)) of
                   None \<Rightarrow> None
                 | Some ((h, mi, sec, f), tz) \<Rightarrow>
                    (let dt = \<lparr>year = nat y, month = m, day = d, hour = h, minute = mi,
                               second = sec, microsecond = f, tzinfo = tz\<rparr>
                     in if 1 \<le> y \<and> valid_datetime dt then Some dt else None)))))"

section \<open>The record schema\<close>

text \<open>
  A validated \<open>Booking\<close> of \<open>schemas.py\<close>. \<open>service\<close> and \<open>status\<close> are texts, as the
  \<open>Literal\<close> types of the source are; \<open>notes\<close> is \<open>Optional[str]\<close>.
\<close>

record booking =
  name :: pystr
  phone :: pystr
  email :: pystr
  service :: pystr
  preferred_datetime :: datetime
  "notes" :: "pystr option"
  status :: pystr

text \<open>
  A value of the request body after JSON decoding, or the \<open>datetime\<close> that the endpoint
  puts in place of a text. \<open>VFloat m e\<close> is the float \<open>m * 2 ^ e\<close>. The body is a dict
  with text keys.
\<close>

datatype pyval =
    VNone
  | VBool bool
  | VInt int
  | VFloat int int
  | VStr pystr
  | VDatetime datetime
  | VList "pyval list"
  | VDict "(pystr \<times> pyval) list"

type_synonym payload = "pystr \<rightharpoonup> pyval"

text \<open>
  One entry of \<open>ValidationError.errors()\<close>: the field (\<open>loc\<close>) and the kind of the
  violation (\<open>type\<close>).
\<close>

datatype error_type =
    Missing
  | StringType
  | StringTooShort
  | StringTooLong
  | ValueError
  | LiteralError
  | DatetimeType

type_synonym field_error = "pystr \<times> error_type"

text \<open>
  The validators of the fields, each on the entry of the payload for its key
  (\<open>None\<close> when the key is absent). A \<open>str\<close> field takes a text as it is and checks
  \<open>min_length\<close> and \<open>max_length\<close> in characters. What the validation library makes of
  a value that is no text (its version 1 converts a number to text, its version 2
  rejects it) is the parameter \<open>lax_str\<close>.
\<close>

definition to_text :: "(pyval \<Rightarrow> pystr option) \<Rightarrow> pyval \<Rightarrow> pystr option" where
  "to_text lax_str x = (case x of VStr s \<Rightarrow> Some s | _ \<Rightarrow> lax_str x)"

definition validate_str ::
  "(pyval \<Rightarrow> pystr option) \<Rightarrow> nat \<Rightarrow> nat \<Rightarrow> pyval option \<Rightarrow> error_type + pystr" where
  "validate_str lax_str min_length max_length v =
     (case v of
        None \<Rightarrow> Inl Missing
      | Some x \<Rightarrow>
         (case to_text lax_str x of
            None \<Rightarrow> Inl StringType
          | Some s \<Rightarrow>
              if length s < min_length then Inl StringTooShort
              else if max_length < length s then Inl StringTooLong
              else Inr s))"

text \<open>
  \<open>EmailStr\<close>: the syntax check is the one of the e-mail validation library, which
  gives back the normalised address or rejects the text. It is the parameter
  \<open>validate_email\<close> here.
\<close>

definition validate_EmailStr ::
  "(pystr \<Rightarrow> pystr option) \<Rightarrow> (pyval \<Rightarrow> pystr option) \<Rightarrow> pyval option \<Rightarrow>
   error_type + pystr" where
  "validate_EmailStr validate_email lax_str v =
     (case v of
        None \<Rightarrow> Inl Missing
      | Some x \<Rightarrow>
         (case to_text lax_str x of
            None \<Rightarrow> Inl StringType
          | Some s \<Rightarrow> (case validate_email s of None \<Rightarrow> Inl ValueError | Some e \<Rightarrow> Inr e)))"

definition validate_literal :: "pystr list \<Rightarrow> pyval option \<Rightarrow> error_type + pystr" where
  "validate_literal allowed v =
     (case v of
        None \<Rightarrow> Inl Missing
      | Some (VStr s) \<Rightarrow> if s \<in> set allowed then Inr s else Inl LiteralError
      | Some _ \<Rightarrow> Inl LiteralError)"

text \<open>
  A \<open>datetime\<close> field takes a \<open>datetime\<close> as it is. What the validation library makes
  of any other value (a number read as Unix time, a text in its own formats) is
  the parameter \<open>lax_datetime\<close>.
\<close>

definition validate_datetime ::
  "(pyval \<Rightarrow> datetime option) \<Rightarrow> pyval option \<Rightarrow> error_type + datetime" where
  "validate_datetime lax_datetime v =
     (case v of
        None \<Rightarrow> Inl Missing
      | Some (VDatetime d) \<Rightarrow> Inr d
      | Some x \<Rightarrow> (case lax_datetime x of None \<Rightarrow> Inl DatetimeType | Some d \<Rightarrow> Inr d))"

text \<open>\<open>Optional[str] = Field(None, max_length=1000)\<close>.\<close>

definition validate_notes ::
  "(pyval \<Rightarrow> pystr option) \<Rightarrow> pyval option \<Rightarrow> error_type + pystr option" where
  "validate_notes lax_str v =
     (case v of
        None \<Rightarrow> Inr None
      | Some VNone \<Rightarrow> Inr None
      | Some x \<Rightarrow>
         (case to_text lax_str x of
            None \<Rightarrow> Inl StringType
          | Some s \<Rightarrow> if 1000 < length s then Inl StringTooLong else Inr (Some s)))"

definition services :: "pystr list" where
  "services = [py ''Hair Styling'', py ''Facials'', py ''Manicure'', py ''Pedicure'',
               py ''Bridal Makeup'', py ''Skincare'']"

definition statuses :: "pystr list" where
  "statuses = [py ''pending'', py ''confirmed'', py ''failed'']"

text \<open>\<open>status\<close> has the default \<open>"pending"\<close>, used when the key is absent.\<close>

definition validate_status :: "pyval option \<Rightarrow> error_type + pystr" where
  "validate_status v =
     (case v of None \<Rightarrow> Inr (py ''pending'') | Some x \<Rightarrow> validate_literal statuses (Some x))"

definition field_errors :: "pystr \<Rightarrow> error_type + 'a \<Rightarrow> field_error list" where
  "field_errors loc r = (case r of Inl e \<Rightarrow> [(loc, e)] | Inr _ \<Rightarrow> [])"

text \<open>
  The libraries and collaborators around the endpoint: the e-mail syntax check, the
  lax reading of a text field and of a timestamp (all three of the validation
  library), \<open>database.create_document\<close>, which returns the new identifier or raises,
  and the clock \<open>datetime.utcnow()\<close>.
\<close>

record env =
  validate_email :: "pystr \<Rightarrow> pystr option"
  lax_str :: "pyval \<Rightarrow> pystr option"
  lax_datetime :: "pyval \<Rightarrow> datetime option"
  create_document :: "pystr \<Rightarrow> booking \<Rightarrow> exn + pystr"
  utcnow :: datetime

text \<open>
  \<open>Booking(**payload)\<close>: every field is validated, in the order of the class, and the
  errors of all of them are raised together as one \<open>ValidationError\<close>. Keys of the
  payload that are no field of the class are not looked at.
\<close>

definition Booking :: "env \<Rightarrow> payload \<Rightarrow> field_error list + booking" where
  "Booking E p =
     (let r_name = validate_str (lax_str E) 2 100 (p (py ''name''));
          r_phone = validate_str (lax_str E) 7 20 (p (py ''phone''));
          r_email = validate_EmailStr (validate_email E) (lax_str E) (p (py ''email''));
          r_service = validate_literal services (p (py ''service''));
          r_datetime = validate_datetime (lax_datetime E) (p (py ''preferred_datetime''));
          r_notes = validate_notes (lax_str E) (p (py ''notes''));
          r_status = validate_status (p (py ''status''));
          errors = field_errors (py ''name'') r_name @ field_errors (py ''phone'') r_phone @
                   field_errors (py ''email'') r_email @
                   field_errors (py ''service'') r_service @
                   field_errors (py ''preferred_datetime'') r_datetime @
                   field_errors (py ''notes'') r_notes @ field_errors (py ''status'') r_status
      in if errors = []
         then Inr \<lparr>name = projr r_name, phone = projr r_phone, email = projr r_email,
                   service = projr r_service, preferred_datetime = projr r_datetime,
                   notes = projr r_notes, status = projr r_status\<rparr>
         else Inl errors)"

text \<open>The fields of the class.\<close>

definition booking_fields :: "pystr list" where
  "booking_fields = [py ''name'', py ''phone'', py ''email'', py ''service'',
                     py ''preferred_datetime'', py ''notes'', py ''status'']"

text \<open>
  Every entry of \<open>errors()\<close> also echoes the input it is about: the value of the
  field, and for a missing field the whole payload. The values of a request are
  decoded JSON, which \<open>json.dumps\<close> can encode again; a \<open>datetime\<close> it cannot encode. A
  \<open>datetime\<close> reaches a payload only under \<open>preferred_datetime\<close>, so of the whole
  payload the values under the fields of the class are looked at.
\<close>

fun json_ok :: "pyval \<Rightarrow> bool" where
  "json_ok (VDatetime d) = False"
| "json_ok (VList xs) = (\<forall>x \<in> set xs. json_ok x)"
| "json_ok (VDict kvs) = (\<forall>kv \<in> set kvs. json_ok (snd kv))"
| "json_ok v = True"

definition values_at :: "payload \<Rightarrow> pystr list \<Rightarrow> pyval list" where
  "values_at p fs = concat (map (\<lambda>f. case p f of None \<Rightarrow> [] | Some v \<Rightarrow> [v]) fs)"

definition echoed_input :: "payload \<Rightarrow> field_error \<Rightarrow> pyval list" where
  "echoed_input p e =
     (if snd e = Missing then values_at p booking_fields else values_at p [fst e])"

definition detail_encodable :: "payload \<Rightarrow> field_error list \<Rightarrow> bool" where
  "detail_encodable p errors = list_all (\<lambda>e. list_all json_ok (echoed_input p e)) errors"

section \<open>The calendar invite\<close>

text \<open>
  \<open>build_ics\<close> of \<open>main.py\<close>. The clock \<open>datetime.utcnow()\<close> is the argument \<open>now\<close>. The
  end of the event is computed first, so an overflow of the addition leaves the
  function before anything else happens. \<open>booking.notes or ''\<close> is the empty text for
  \<open>None\<close> and for the empty text. The result is the concatenation of thirteen pieces,
  each closed by a line feed.
\<close>

definition notes_or_empty :: "pystr option \<Rightarrow> pystr" where
  "notes_or_empty n = (case n of None \<Rightarrow> [] | Some s \<Rightarrow> s)"

definition join_lines :: "pystr list \<Rightarrow> pystr" where
  "join_lines ls = concat (map (\<lambda>l. l @ nl) ls)"

definition build_ics :: "datetime \<Rightarrow> booking \<Rightarrow> exn + pystr" where
  "build_ics now b =
     (let start = preferred_datetime b in
      case plus_one_hour start of
        Inl e \<Rightarrow> Inl e
      | Inr end_dt \<Rightarrow>
         (let start_str = strftime start;
              end_str = strftime end_dt;
              now_str = strftime now @ py ''Z'';
              uid = py ''booking-'' @ start_str @ py ''-'' @ email b;
              summary = py ''Appointment: '' @ service b @ py '' - Alankritha Naturals'';
              description = py ''Name: '' @ name b @ backslash_n @ py ''Phone: '' @ phone b @
                            backslash_n @ py ''Notes: '' @ notes_or_empty (notes b);
              location = py ''Alankritha Naturals, Hyderabad''
          in Inr (join_lines
                   [py ''BEGIN:VCALENDAR'',
                    py ''VERSION:2.0'',
                    py ''PRODID:-//Alankritha Naturals//Booking//EN'',
                    py ''BEGIN:VEVENT'',
                    py ''UID:'' @ uid,
                    py ''DTSTAMP:'' @ now_str,
                    py ''DTSTART:'' @ start_str,
                    py ''DTEND:'' @ end_str,
                    py ''SUMMARY:'' @ summary,
                    py ''DESCRIPTION:'' @ description,
                    py ''LOCATION:'' @ location,
                    py ''END:VEVENT'',
                    py ''END:VCALENDAR''])))"

text \<open>\<open>l.startswith(k)\<close>.\<close>

definition startswith :: "pystr \<Rightarrow> pystr \<Rightarrow> bool" where
  "startswith k l = (take (length k) l = k)"

section \<open>The booking endpoint\<close>

text \<open>
  What a request ends with: the \<open>JSONResponse\<close> of a success, an \<open>HTTPException\<close> with
  its status code and detail, or an exception that no handler of the route catches.
\<close>

datatype detail = Text pystr | Errors "field_error list"

datatype response =
    JSONResponse (resp_status: pystr) (message: pystr) (booking_id: pystr) (ics: pystr)
  | HTTPException (status_code: nat) (detail: detail)
  | Unhandled exn

text \<open>The calls a request makes to its collaborators, in order.\<close>

datatype call = CreateDocument pystr booking | UtcNow

text \<open>
  Lines 112 to 116: a text under \<open>preferred_datetime\<close> is replaced by the \<open>datetime\<close> it
  parses to, and a text that does not parse ends the request with status 400. The
  \<open>HTTPException\<close> is no \<open>ValidationError\<close>, so the handler of line 119 lets it pass.
\<close>

definition bad_format :: response where
  "bad_format = HTTPException 400 (Text (py ''Invalid preferred_datetime format. Use ISO 8601.''))"

definition coerce_preferred_datetime :: "payload \<Rightarrow> response + payload" where
  "coerce_preferred_datetime p =
     (case p (py ''preferred_datetime'') of
        Some (VStr s) \<Rightarrow>
          (case fromisoformat s of
             None \<Rightarrow> Inl bad_format
           | Some d \<Rightarrow> Inr (p(py ''preferred_datetime'' \<mapsto> VDatetime d)))
      | _ \<Rightarrow> Inr p)"

definition success_message :: pystr where
  "success_message =
     py ''Appointment confirmed '' @ [8212] @ py '' we'' @ [8217] @
     py ''ll call to confirm the time.''"

text \<open>
  \<open>create_booking\<close> of \<open>main.py\<close>: the response, and the calls made on the way. The
  detail of the \<open>HTTPException\<close> of line 120 is encoded when the response is built;
  when it holds a \<open>datetime\<close> the encoding raises \<open>TypeError\<close>, and the request ends with
  that exception instead of the status 422. \<open>build_ics\<close> reads the clock only after
  the end of the event is computed.
\<close>

definition create_booking :: "env \<Rightarrow> payload \<Rightarrow> response \<times> call list" where
  "create_booking E payload =
     (case coerce_preferred_datetime payload of
        Inl r \<Rightarrow> (r, [])
      | Inr p \<Rightarrow>
         (case Booking E p of
            Inl errors \<Rightarrow>
              (if detail_encodable p errors then HTTPException 422 (Errors errors)
               else Unhandled (TypeError (py ''Object of type datetime is not JSON serializable'')),
               [])
          | Inr b \<Rightarrow>
             (case create_document E (py ''booking'') b of
                Inl e \<Rightarrow>
                  (HTTPException 500 (Text (py ''Database error: '' @ exn_str e)),
                   [CreateDocument (py ''booking'') b])
              | Inr new_id \<Rightarrow>
                 (case build_ics (utcnow E) b of
                    Inl e \<Rightarrow> (Unhandled e, [CreateDocument (py ''booking'') b])
                  | Inr text \<Rightarrow>
                      (JSONResponse (py ''success'') success_message new_id text,
                       [CreateDocument (py ''booking'') b, UtcNow])))))"

section \<open>The diagnostics route\<close>

text \<open>
  The dict that \<open>test_database\<close> fills in. \<open>database_url\<close> and \<open>database_name\<close> start as
  \<open>None\<close>.
\<close>

record diagnostics =
  backend :: pystr
  database :: pystr
  database_url :: "pystr option"
  database_name :: "pystr option"
  connection_status :: pystr
  collections :: "pystr list"

text \<open>
  The storage handle \<open>db\<close> as the route uses it: the attribute \<open>name\<close> may be absent
  (\<open>None\<close>), or reading it may raise; \<open>list_collection_names()\<close> returns the names or
  raises. \<open>from database import db\<close> raises, or gives \<open>None\<close> or a handle.
\<close>

record db_handle =
  db_name :: "(exn + pystr) option"
  list_collection_names :: "exn + pystr list"

definition check_mark :: pystr where
  "check_mark = [9989]"

definition cross_mark :: pystr where
  "cross_mark = [10060]"

definition warning_sign :: pystr where
  "warning_sign = [9888, 65039]"

definition initial_response :: diagnostics where
  "initial_response =
     \<lparr>backend = check_mark @ py '' Running'',
      database = cross_mark @ py '' Not Available'',
      database_url = None,
      database_name = None,
      connection_status = py ''Not Connected'',
      collections = []\<rparr>"

text \<open>Lines 53 to 58: the inner \<open>try\<close>, which catches every exception of the listing.\<close>

definition probe_collections :: "db_handle \<Rightarrow> diagnostics \<Rightarrow> diagnostics" where
  "probe_collections db r =
     (case list_collection_names db of
        Inr names \<Rightarrow>
          r\<lparr>collections := take 10 names,
            database := check_mark @ py '' Connected & Working''\<rparr>
      | Inl e \<Rightarrow>
          r\<lparr>database := warning_sign @ py ''  Connected but Error: '' @ take 50 (exn_str e)\<rparr>)"

text \<open>
  Lines 44 to 60: the body of the outer \<open>try\<close>. It gives the dict as far as it was
  filled in, and the exception that left the body, if one did.
\<close>

definition probe_database :: "exn + db_handle option \<Rightarrow> diagnostics \<Rightarrow> diagnostics \<times> exn option" where
  "probe_database import_db r =
     (case import_db of
        Inl e \<Rightarrow> (r, Some e)
      | Inr None \<Rightarrow> (r\<lparr>database := warning_sign @ py ''  Available but not initialized''\<rparr>, None)
      | Inr (Some db) \<Rightarrow>
         (let r1 = r\<lparr>database := check_mark @ py '' Available'',
                      database_url := Some (check_mark @ py '' Configured'')\<rparr>
          in case db_name db of
               Some (Inl e) \<Rightarrow> (r1, Some e)
             | n \<Rightarrow>
                (let r2 = r1\<lparr>database_name :=
                               Some (case n of Some (Inr v) \<Rightarrow> v
                                     | _ \<Rightarrow> check_mark @ py '' Connected''),
                             connection_status := py ''Connected''\<rparr>
                 in (probe_collections db r2, None))))"

text \<open>\<open>os.getenv(k)\<close> as a condition: set and not empty.\<close>

definition truthy :: "pystr option \<Rightarrow> bool" where
  "truthy v = (case v of None \<Rightarrow> False | Some s \<Rightarrow> s \<noteq> [])"

definition set_or_not :: "pystr option \<Rightarrow> pystr" where
  "set_or_not v = (if truthy v then check_mark @ py '' Set'' else cross_mark @ py '' Not Set'')"

text \<open>
  \<open>test_database\<close> of \<open>main.py\<close>, given the outcome of the import and the environment.
  The result is the returned dict, or the exception that leaves the function.
\<close>

definition test_database :: "exn + db_handle option \<Rightarrow> (pystr \<Rightarrow> pystr option) \<Rightarrow> exn + diagnostics" where
  "test_database import_db getenv =
     (let (r, raised) = probe_database import_db initial_response;
          r' = (case raised of
                  None \<Rightarrow> r
                | Some (ImportError m) \<Rightarrow>
                    r\<lparr>database := cross_mark @
                       py '' Database module not found (run enable-database first)''\<rparr>
                | Some e \<Rightarrow> r\<lparr>database := cross_mark @ py '' Error: '' @ take 50 (exn_str e)\<rparr>)
      in Inr (r'\<lparr>database_url := Some (set_or_not (getenv (py ''DATABASE_URL''))),
                database_name := Some (set_or_not (getenv (py ''DATABASE_NAME'')))\<rparr>))"

section \<open>Violations and examples\<close>

text \<open>
  The violation of a field of the class by a payload, if there is one: the error of
  the validator of that field alone.
\<close>

definition error_of :: "error_type + 'a \<Rightarrow> error_type option" where
  "error_of r = (case r of Inl e \<Rightarrow> Some e | Inr _ \<Rightarrow> None)"



text \<open>The request of the end-to-end example of the specification, and its record.\<close>

definition jane_payload :: payload where
  "jane_payload =
     [py ''name'' \<mapsto> VStr (py ''Jane Doe''),
      py ''phone'' \<mapsto> VStr (py ''1234567890''),
      py ''email'' \<mapsto> VStr (py ''jane@example.com''),
      py ''service'' \<mapsto> VStr (py ''Facials''),
      py ''preferred_datetime'' \<mapsto> VStr (py ''2025-06-01T10:00:00'')]"

definition june_1st_10h :: datetime where
  "june_1st_10h =
     \<lparr>year = 2025, month = 6, day = 1, hour = 10, minute = 0, second = 0,
      microsecond = 0, tzinfo = None\<rparr>"

definition jane_booking :: booking where
  "jane_booking =
     \<lparr>name = py ''Jane Doe'', phone = py ''1234567890'', email = py ''jane@example.com'',
      service = py ''Facials'', preferred_datetime = june_1st_10h, notes = None,
      status = py ''pending''\<rparr>"

text \<open>
  An environment for the examples: an e-mail check that only asks for an \<open>@\<close>, no lax
  reading of texts or timestamps, a store that returns the identifier \<open>abc123\<close>, and a clock.
  \<open>failing_env\<close> is the same with a store that raises.
\<close>

definition has_at_sign :: "pystr \<Rightarrow> pystr option" where
  "has_at_sign s = (if 64 \<in> set s then Some s else None)"

definition demo_env :: env where
  "demo_env =
     \<lparr>validate_email = has_at_sign,
      lax_str = (\<lambda>v. None),
      lax_datetime = (\<lambda>v. None),
      create_document = (\<lambda>collection b. Inr (py ''abc123'')),
      utcnow = \<lparr>year = 2025, month = 5, day = 20, hour = 8, minute = 30, second = 15,
                microsecond = 0, tzinfo = None\<rparr>\<rparr>"

definition failing_env :: env where
  "failing_env =
     demo_env\<lparr>create_document := (\<lambda>collection b. Inl (Exception (py ''connection refused'')))\<rparr>"

text \<open>
  The thirteen pieces of the invite, given the clock, the record and the end of the
  event, and the keys of the lines that depend on the record alone.
\<close>

definition uid_line :: "booking \<Rightarrow> pystr" where
  "uid_line b =
     py ''UID:'' @ py ''booking-'' @ strftime (preferred_datetime b) @ py ''-'' @ email b"

definition dtstamp_line :: "datetime \<Rightarrow> pystr" where
  "dtstamp_line now = py ''DTSTAMP:'' @ strftime now @ py ''Z''"

definition invite_lines :: "datetime \<Rightarrow> booking \<Rightarrow> datetime \<Rightarrow> pystr list" where
  "invite_lines now b end_dt =
     [py ''BEGIN:VCALENDAR'',
      py ''VERSION:2.0'',
      py ''PRODID:-//Alankritha Naturals//Booking//EN'',
      py ''BEGIN:VEVENT'',
      uid_line b,
      dtstamp_line now,
      py ''DTSTART:'' @ strftime (preferred_datetime b),
      py ''DTEND:'' @ strftime end_dt,
      py ''SUMMARY:'' @ py ''Appointment: '' @ service b @ py '' - Alankritha Naturals'',
      py ''DESCRIPTION:'' @ py ''Name: '' @ name b @ backslash_n @ py ''Phone: '' @ phone b @
        backslash_n @ py ''Notes: '' @ notes_or_empty (notes b),
      py ''LOCATION:'' @ py ''Alankritha Naturals, Hyderabad'',
      py ''END:VEVENT'',
      py ''END:VCALENDAR'']"

definition event_keys :: "pystr list" where
  "event_keys = [py ''UID:'', py ''DTSTART:'', py ''DTEND:'', py ''SUMMARY:'',
                 py ''DESCRIPTION:'', py ''LOCATION:'']"

text \<open>
  A request for an appointment in the last hour that \<open>datetime\<close> can hold, and its
  record.
\<close>

definition last_hour :: datetime where
  "last_hour =
     \<lparr>year = 9999, month = 12, day = 31, hour = 23, minute = 30, second = 0,
      microsecond = 0, tzinfo = None\<rparr>"

definition last_hour_payload :: payload where
  "last_hour_payload =
     jane_payload(py ''preferred_datetime'' \<mapsto> VStr (py ''9999-12-31T23:30:00''))"

definition last_hour_booking :: booking where
  "last_hour_booking = jane_booking\<lparr>preferred_datetime := last_hour\<rparr>"

text \<open>Variations of the request of the example.\<close>

definition confirmed_payload :: payload where
  "confirmed_payload = jane_payload(py ''status'' \<mapsto> VStr (py ''confirmed''))"


definition not_a_date_payload :: payload where
  "not_a_date_payload = jane_payload(py ''preferred_datetime'' \<mapsto> VStr (py ''not-a-date''))"


definition coupon_payload :: payload where
  "coupon_payload = jane_payload(py ''coupon'' \<mapsto> VStr (py ''SPRING''))"

text \<open>The request of the example without its \<open>name\<close>.\<close>

definition no_name_payload :: payload where
  "no_name_payload = jane_payload(py ''name'' := None)"

text \<open>A storage handle that is connected but cannot list its collections.\<close>

definition broken_db :: db_handle where
  "broken_db =
     \<lparr>db_name = Some (Inr (py ''salon'')),
      list_collection_names = Inl (Exception (py ''server selection timeout''))\<rparr>"

section \<open>Calendar arithmetic\<close>

lemma div100_le_div4: "(n::nat) div 100 \<le> n div 4"
  by (rule div_le_mono2) simp_all

lemma mod_400_100: "(n::nat) mod 400 = 0 \<Longrightarrow> n mod 100 = 0"
  by presburger

lemma mod_100_4: "(n::nat) mod 100 = 0 \<Longrightarrow> n mod 4 = 0"
  by presburger

lemma days_before_year_Suc:
  assumes "1 \<le> y"
  shows "days_before_year (Suc y) = days_before_year y + (if is_leap y then 366 else 365)"
proof -
  obtain n where y: "y = Suc n" using assms by (cases y) auto
  have le: "n div 100 \<le> n div 4" by (rule div100_le_div4)
  have a: "Suc n mod 400 = 0 \<Longrightarrow> Suc n mod 100 = 0" by (rule mod_400_100)
  have b: "Suc n mod 100 = 0 \<Longrightarrow> Suc n mod 4 = 0" by (rule mod_100_4)
  show ?thesis
    using le a b
    by (auto simp add: y days_before_year_def is_leap_def div_Suc add_ac)
qed

lemma days_before_month_Suc:
  "1 \<le> m \<Longrightarrow> days_before_month y (Suc m) = days_before_month y m + days_in_month y m"
  by (simp add: days_before_month_def)

lemma days_before_month_1: "days_before_month y (Suc 0) = 0"
  by (simp add: days_before_month_def)

lemma upt_1_12: "[Suc 0..<12] = [1, 2, 3, 4, 5, 6, 7, 8, 9, 10, 11::nat]"
  by (simp add: upt_rec)

lemma days_before_month_12: "days_before_month y 12 = (if is_leap y then 335 else 334)"
  by (simp add: days_before_month_def upt_1_12 days_in_month_def)

lemma days_in_month_pos: "1 \<le> days_in_month y m"
  by (simp add: days_in_month_def)

lemma days_in_month_12: "days_in_month y 12 = 31"
  by (simp add: days_in_month_def)

text \<open>The result of the addition is a timestamp again, one hour later on the wall clock.\<close>

lemma plus_one_hour_valid:
  assumes "valid_datetime d" and "plus_one_hour d = Inr e"
  shows "valid_datetime e"
  using assms days_in_month_pos[of "year d" "Suc (month d)"]
    days_in_month_pos[of "Suc (year d)" 1]
  by (auto simp add: valid_datetime_def plus_one_hour_def split: if_splits)

lemma plus_one_hour_seconds:
  assumes "valid_datetime d" and "plus_one_hour d = Inr e"
  shows "wall_seconds e = wall_seconds d + 3600"
proof -
  consider (h) "hour d < 23"
    | (dd) "hour d = 23" "day d < days_in_month (year d) (month d)"
    | (m) "hour d = 23" "day d = days_in_month (year d) (month d)" "month d < 12"
    | (y) "hour d = 23" "day d = days_in_month (year d) (month d)" "month d = 12"
          "year d < 9999"
    using assms by (auto simp add: valid_datetime_def plus_one_hour_def split: if_splits)
  then show ?thesis
  proof cases
    case h
    then show ?thesis using assms(2) by (auto simp add: plus_one_hour_def wall_seconds_def)
  next
    case dd
    then show ?thesis using assms(2)
      by (auto simp add: plus_one_hour_def wall_seconds_def ymd2ord_def)
  next
    case m
    have "1 \<le> month d" using assms(1) by (simp add: valid_datetime_def)
    then have "days_before_month (year d) (Suc (month d)) =
        days_before_month (year d) (month d) + days_in_month (year d) (month d)"
      by (rule days_before_month_Suc)
    then show ?thesis using m assms(2)
      by (auto simp add: plus_one_hour_def wall_seconds_def ymd2ord_def)
  next
    case y
    have "1 \<le> year d" using assms(1) by (simp add: valid_datetime_def)
    then have "days_before_year (Suc (year d)) =
        days_before_year (year d) + (if is_leap (year d) then 366 else 365)"
      by (rule days_before_year_Suc)
    then show ?thesis using y assms(2)
      by (auto simp add: plus_one_hour_def wall_seconds_def ymd2ord_def
          days_before_month_1 days_before_month_12 days_in_month_12)
  qed
qed

lemma plus_one_hour_rest:
  assumes "plus_one_hour d = Inr e"
  shows "minute e = minute d \<and> second e = second d \<and> microsecond e = microsecond d \<and>
         tzinfo e = tzinfo d"
  using assms by (auto simp add: plus_one_hour_def split: if_splits)

lemma plus_one_hour_overflow:
  assumes "valid_datetime d"
  shows "plus_one_hour d = Inl x \<longleftrightarrow>
         x = OverflowError (py ''date value out of range'') \<and>
         year d = 9999 \<and> month d = 12 \<and> day d = 31 \<and> hour d = 23"
  using assms
  by (auto simp add: plus_one_hour_def valid_datetime_def days_in_month_12 split: if_splits)

section \<open>Lines of a text\<close>

lemma split_nl_nonempty: "split_nl s \<noteq> []"
  by (induction s) (auto split: list.splits)

lemma split_nl_no_newline: "10 \<notin> set s \<Longrightarrow> split_nl s = [s]"
  by (induction s) auto

lemma split_nl_append: "split_nl (xs @ 10 # ys) = split_nl xs @ split_nl ys"
  using split_nl_nonempty by (induction xs) (auto split: list.splits)

lemma split_nl_join_lines: "split_nl (join_lines ls) = concat (map split_nl ls) @ [[]]"
  by (induction ls) (simp_all add: join_lines_def nl_def split_nl_append)

lemma dec_digits: "set (dec n) \<subseteq> {48..57}"
proof (induction n rule: dec.induct)
  case (1 n)
  show ?case
  proof (cases "n < 10")
    case True
    then show ?thesis by (subst dec.simps) auto
  next
    case False
    have "n mod 10 < 10" by simp
    then have "48 + n mod 10 \<in> {48..57}" by auto
    with 1 False show ?thesis by (subst dec.simps) auto
  qed
qed

lemma pad2_digits: "set (pad2 n) \<subseteq> {48..57}"
  using dec_digits[of n] by (auto simp add: pad2_def)

lemma strftime_chars: "set (strftime d) \<subseteq> insert 84 {48..57}"
  using dec_digits[of "year d"] pad2_digits[of "month d"] pad2_digits[of "day d"]
    pad2_digits[of "hour d"] pad2_digits[of "minute d"] pad2_digits[of "second d"]
  by (auto simp add: strftime_def py_def)

lemma strftime_no_newline: "10 \<notin> set (strftime d)"
  using strftime_chars[of d] by auto

section \<open>The text of the invite\<close>

lemma build_ics_cases:
  "(\<exists>e. plus_one_hour (preferred_datetime b) = Inl e \<and> build_ics now b = Inl e) \<or>
   (\<exists>end_dt. plus_one_hour (preferred_datetime b) = Inr end_dt \<and>
      build_ics now b = Inr (join_lines (invite_lines now b end_dt)))"
  by (cases "plus_one_hour (preferred_datetime b)")
    (simp_all add: build_ics_def Let_def invite_lines_def uid_line_def dtstamp_line_def)

lemma build_ics_Inr:
  assumes "build_ics now b = Inr t"
  shows "\<exists>end_dt. plus_one_hour (preferred_datetime b) = Inr end_dt \<and>
           t = join_lines (invite_lines now b end_dt)"
  using build_ics_cases[of b now] assms by auto

lemma build_ics_succeeds_again:
  assumes "build_ics now1 b = Inr t1"
  shows "\<exists>t2. build_ics now2 b = Inr t2"
  using build_ics_cases[of b now1] build_ics_cases[of b now2] assms by auto

lemma in_lines_join:
  assumes "l \<in> set ls" and "10 \<notin> set l"
  shows "l \<in> set (split_nl (join_lines ls))"
proof -
  have "split_nl l = [l]" using assms(2) by (rule split_nl_no_newline)
  then have "l \<in> set (concat (map split_nl ls))"
    using assms(1) by (auto intro!: bexI[of _ l])
  then show ?thesis by (simp add: split_nl_join_lines)
qed

lemma build_ics_event_lines:
  assumes "build_ics now b = Inr t"
  shows "\<exists>end_dt. plus_one_hour (preferred_datetime b) = Inr end_dt \<and>
           py ''DTSTART:'' @ strftime (preferred_datetime b) \<in> set (split_nl t) \<and>
           py ''DTEND:'' @ strftime end_dt \<in> set (split_nl t)"
proof -
  from build_ics_Inr[OF assms] obtain end_dt where
    e: "plus_one_hour (preferred_datetime b) = Inr end_dt" and
    t: "t = join_lines (invite_lines now b end_dt)" by blast
  have s: "10 \<notin> set (py ''DTSTART:'' @ strftime (preferred_datetime b))"
    using strftime_no_newline[of "preferred_datetime b"] by (simp add: py_def)
  have f: "10 \<notin> set (py ''DTEND:'' @ strftime end_dt)"
    using strftime_no_newline[of end_dt] by (simp add: py_def)
  have "py ''DTSTART:'' @ strftime (preferred_datetime b) \<in> set (split_nl t)"
    unfolding t by (rule in_lines_join[OF _ s]) (simp add: invite_lines_def)
  moreover have "py ''DTEND:'' @ strftime end_dt \<in> set (split_nl t)"
    unfolding t by (rule in_lines_join[OF _ f]) (simp add: invite_lines_def)
  ultimately show ?thesis using e by blast
qed

lemma dtstamp_line_split: "split_nl (dtstamp_line now) = [dtstamp_line now]"
  using strftime_no_newline[of now]
  by (intro split_nl_no_newline) (simp add: dtstamp_line_def py_def)

lemma dtstamp_startswith: "startswith (py ''DTSTAMP:'') (dtstamp_line now)"
  by (simp add: startswith_def dtstamp_line_def py_def)

lemma key_not_dtstamp:
  assumes "k \<in> set event_keys" and "startswith k l"
  shows "\<not> startswith (py ''DTSTAMP:'') l"
proof
  assume "startswith (py ''DTSTAMP:'') l"
  then have "take (length (py ''DTSTAMP:'')) l = py ''DTSTAMP:''"
    by (simp only: startswith_def)
  then have "l = py ''DTSTAMP:'' @ drop (length (py ''DTSTAMP:'')) l"
    by (metis append_take_drop_id)
  then obtain r where l: "l = py ''DTSTAMP:'' @ r" ..
  show False using assms unfolding l
    by (auto simp add: event_keys_def startswith_def py_def)
qed

lemma filter_keys:
  assumes "filter (\<lambda>l. \<not> startswith (py ''DTSTAMP:'') l) xs =
           filter (\<lambda>l. \<not> startswith (py ''DTSTAMP:'') l) ys"
    and "k \<in> set event_keys"
  shows "filter (startswith k) xs = filter (startswith k) ys"
proof -
  have "filter (startswith k) zs =
        filter (startswith k) (filter (\<lambda>l. \<not> startswith (py ''DTSTAMP:'') l) zs)" for zs
    using key_not_dtstamp[OF assms(2)] by (auto intro: filter_cong)
  then show ?thesis using assms(1) by metis
qed

lemma literal_lines:
  "split_nl (py ''BEGIN:VCALENDAR'') = [py ''BEGIN:VCALENDAR'']"
  "split_nl (py ''VERSION:2.0'') = [py ''VERSION:2.0'']"
  "split_nl (py ''PRODID:-//Alankritha Naturals//Booking//EN'') =
     [py ''PRODID:-//Alankritha Naturals//Booking//EN'']"
  "split_nl (py ''BEGIN:VEVENT'') = [py ''BEGIN:VEVENT'']"
  by (rule split_nl_no_newline, simp add: py_def)+

text \<open>
  The lines of an invite: four fixed lines, the lines of the UID piece, the DTSTAMP
  line, and lines that depend on the record and the end of the event.
\<close>

lemma invite_lines_split:
  "\<exists>rest. \<forall>now. split_nl (join_lines (invite_lines now b end_dt)) =
     [py ''BEGIN:VCALENDAR'', py ''VERSION:2.0'',
      py ''PRODID:-//Alankritha Naturals//Booking//EN'', py ''BEGIN:VEVENT''] @
     split_nl (uid_line b) @ [dtstamp_line now] @ rest"
  by (rule exI[of _ "concat (map split_nl (drop 6 (invite_lines june_1st_10h b end_dt))) @ [[]]"])
    (simp add: split_nl_join_lines invite_lines_def literal_lines dtstamp_line_split)

lemma nth_4_lines:
  "([a, b, c, d] @ split_nl u @ rest) ! 4 = hd (split_nl u)"
  using split_nl_nonempty[of u] by (cases "split_nl u") (simp_all add: nth_append)

lemma build_ics_uid_line:
  assumes "build_ics now b = Inr t"
  shows "split_nl t ! 4 = hd (split_nl (uid_line b))"
proof -
  from build_ics_Inr[OF assms] obtain end_dt where
    t: "t = join_lines (invite_lines now b end_dt)" by blast
  from invite_lines_split[of b end_dt] obtain rest where
    "split_nl (join_lines (invite_lines now b end_dt)) =
     [py ''BEGIN:VCALENDAR'', py ''VERSION:2.0'',
      py ''PRODID:-//Alankritha Naturals//Booking//EN'', py ''BEGIN:VEVENT''] @
     split_nl (uid_line b) @ [dtstamp_line now] @ rest" by blast
  then show ?thesis unfolding t by (simp only: nth_4_lines)
qed

lemma build_ics_same_but_dtstamp:
  assumes "build_ics now1 b = Inr t1" and "build_ics now2 b = Inr t2"
  shows "filter (\<lambda>l. \<not> startswith (py ''DTSTAMP:'') l) (split_nl t1) =
         filter (\<lambda>l. \<not> startswith (py ''DTSTAMP:'') l) (split_nl t2)"
proof -
  from build_ics_Inr[OF assms(1)] obtain e1 where
    e1: "plus_one_hour (preferred_datetime b) = Inr e1" and
    t1: "t1 = join_lines (invite_lines now1 b e1)" by blast
  from build_ics_Inr[OF assms(2)] obtain e2 where
    e2: "plus_one_hour (preferred_datetime b) = Inr e2" and
    t2: "t2 = join_lines (invite_lines now2 b e2)" by blast
  have e: "e2 = e1" using e1 e2 by simp
  from invite_lines_split[of b e1] obtain rest where
    r: "\<And>now. split_nl (join_lines (invite_lines now b e1)) =
     [py ''BEGIN:VCALENDAR'', py ''VERSION:2.0'',
      py ''PRODID:-//Alankritha Naturals//Booking//EN'', py ''BEGIN:VEVENT''] @
     split_nl (uid_line b) @ [dtstamp_line now] @ rest" by blast
  show ?thesis unfolding t1 t2 e r by (simp add: dtstamp_startswith)
qed

section \<open>The claims about the invite\<close>

lemma valid_june: "valid_datetime june_1st_10h"
  by (simp add: june_1st_10h_def valid_datetime_def days_in_month_def)

lemma strftime_june: "strftime june_1st_10h = py ''20250601T100000''"
  by (simp add: june_1st_10h_def strftime_def pad2_def dec.simps py_def)

lemma plus_one_hour_june:
  "plus_one_hour june_1st_10h = Inr (june_1st_10h\<lparr>hour := 11\<rparr>)"
  by (simp add: june_1st_10h_def plus_one_hour_def)

lemma strftime_june_11: "strftime (june_1st_10h\<lparr>hour := 11\<rparr>) = py ''20250601T110000''"
  by (simp add: june_1st_10h_def strftime_def pad2_def dec.simps py_def)

text \<open>
  Claim C5, as amended. For every record whose \<open>preferred_datetime\<close> is a timestamp
  before the last hour of 9999-12-31, \<open>build_ics\<close> returns an invite. Its \<open>DTSTART\<close>
  line carries the \<open>preferred_datetime\<close> and its \<open>DTEND\<close> line a timestamp that is
  exactly 3600 seconds later on the wall clock, with the same microseconds and the
  same offset.
\<close>

theorem build_ics_one_hour:
  assumes "valid_datetime (preferred_datetime b)"
    and "\<not> (year (preferred_datetime b) = 9999 \<and> month (preferred_datetime b) = 12 \<and>
            day (preferred_datetime b) = 31 \<and> hour (preferred_datetime b) = 23)"
  shows "\<exists>t end_dt.
           build_ics now b = Inr t \<and>
           py ''DTSTART:'' @ strftime (preferred_datetime b) \<in> set (split_nl t) \<and>
           py ''DTEND:'' @ strftime end_dt \<in> set (split_nl t) \<and>
           valid_datetime end_dt \<and>
           wall_seconds end_dt = wall_seconds (preferred_datetime b) + 3600 \<and>
           microsecond end_dt = microsecond (preferred_datetime b) \<and>
           tzinfo end_dt = tzinfo (preferred_datetime b)"
proof -
  have "\<not> (\<exists>e. plus_one_hour (preferred_datetime b) = Inl e)"
    using assms by (simp add: plus_one_hour_overflow)
  with build_ics_cases[of b now] obtain t where t: "build_ics now b = Inr t"
    by auto
  from build_ics_event_lines[OF t] obtain end_dt where
    e: "plus_one_hour (preferred_datetime b) = Inr end_dt" and
    l: "py ''DTSTART:'' @ strftime (preferred_datetime b) \<in> set (split_nl t)"
       "py ''DTEND:'' @ strftime end_dt \<in> set (split_nl t)"
    by blast
  show ?thesis
    using t l plus_one_hour_valid[OF assms(1) e] plus_one_hour_seconds[OF assms(1) e]
      plus_one_hour_rest[OF e]
    by blast
qed

text \<open>The theorem at the record of the end-to-end example.\<close>

theorem build_ics_one_hour_witness:
  "\<exists>t end_dt.
     build_ics (utcnow demo_env) jane_booking = Inr t \<and>
     py ''DTSTART:'' @ strftime june_1st_10h \<in> set (split_nl t) \<and>
     py ''DTEND:'' @ strftime end_dt \<in> set (split_nl t) \<and>
     valid_datetime end_dt \<and>
     wall_seconds end_dt = wall_seconds june_1st_10h + 3600 \<and>
     microsecond end_dt = microsecond june_1st_10h \<and>
     tzinfo end_dt = tzinfo june_1st_10h"
proof -
  have p: "preferred_datetime jane_booking = june_1st_10h" by (simp add: jane_booking_def)
  have n: "\<not> (year june_1st_10h = 9999 \<and> month june_1st_10h = 12 \<and>
            day june_1st_10h = 31 \<and> hour june_1st_10h = 23)"
    by (simp add: june_1st_10h_def)
  show ?thesis
    using build_ics_one_hour[of jane_booking "utcnow demo_env"] valid_june n
    unfolding p by blast
qed

text \<open>
  Claim C6. When \<open>build_ics\<close> returns an invite for a record at one time, it returns
  one at any other time, and the two have the same lines apart from lines that
  start with \<open>DTSTAMP:\<close>; in particular the \<open>UID\<close>, \<open>DTSTART\<close>, \<open>DTEND\<close>, \<open>SUMMARY\<close>,
  \<open>DESCRIPTION\<close> and \<open>LOCATION\<close> lines are the same. The fifth line, which is the \<open>UID\<close>
  line, is the same for any two records with the same \<open>preferred_datetime\<close> and
  \<open>email\<close>; for an \<open>email\<close> without a line feed it is \<open>UID:booking-\<close>, the
  formatted start, \<open>-\<close> and the \<open>email\<close>. The identifier of the store is no argument
  of \<open>build_ics\<close>.
\<close>

theorem build_ics_deterministic:
  assumes "build_ics now1 b = Inr t1"
  shows "\<exists>t2. build_ics now2 b = Inr t2 \<and>
           filter (\<lambda>l. \<not> startswith (py ''DTSTAMP:'') l) (split_nl t1) =
           filter (\<lambda>l. \<not> startswith (py ''DTSTAMP:'') l) (split_nl t2) \<and>
           (\<forall>k \<in> set event_keys.
              filter (startswith k) (split_nl t1) = filter (startswith k) (split_nl t2)) \<and>
           (\<forall>b' t'. build_ics now2 b' = Inr t' \<and>
                    preferred_datetime b' = preferred_datetime b \<and> email b' = email b \<longrightarrow>
                    split_nl t' ! 4 = split_nl t1 ! 4) \<and>
           (10 \<notin> set (email b) \<longrightarrow>
              split_nl t1 ! 4 =
              py ''UID:booking-'' @ strftime (preferred_datetime b) @ py ''-'' @ email b)"
proof -
  from build_ics_succeeds_again[OF assms] obtain t2 where t2: "build_ics now2 b = Inr t2" ..
  have same: "filter (\<lambda>l. \<not> startswith (py ''DTSTAMP:'') l) (split_nl t1) =
              filter (\<lambda>l. \<not> startswith (py ''DTSTAMP:'') l) (split_nl t2)"
    using assms t2 by (rule build_ics_same_but_dtstamp)
  have keys: "\<forall>k \<in> set event_keys.
      filter (startswith k) (split_nl t1) = filter (startswith k) (split_nl t2)"
    using filter_keys[OF same] by blast
  have uid: "\<forall>b' t'. build_ics now2 b' = Inr t' \<and>
                    preferred_datetime b' = preferred_datetime b \<and> email b' = email b \<longrightarrow>
                    split_nl t' ! 4 = split_nl t1 ! 4"
  proof (intro allI impI)
    fix b' t'
    assume a: "build_ics now2 b' = Inr t' \<and>
               preferred_datetime b' = preferred_datetime b \<and> email b' = email b"
    then have "uid_line b' = uid_line b" by (simp add: uid_line_def)
    then show "split_nl t' ! 4 = split_nl t1 ! 4"
      using a build_ics_uid_line[OF assms] build_ics_uid_line[of now2 b' t'] by simp
  qed
  have line: "10 \<notin> set (email b) \<longrightarrow>
      split_nl t1 ! 4 = py ''UID:booking-'' @ strftime (preferred_datetime b) @ py ''-'' @ email b"
  proof
    assume "10 \<notin> set (email b)"
    then have "10 \<notin> set (uid_line b)"
      using strftime_no_newline[of "preferred_datetime b"] by (simp add: uid_line_def py_def)
    then have "split_nl (uid_line b) = [uid_line b]"
      by (rule split_nl_no_newline)
    then have "split_nl t1 ! 4 = uid_line b"
      using build_ics_uid_line[OF assms] by simp
    then show "split_nl t1 ! 4 =
        py ''UID:booking-'' @ strftime (preferred_datetime b) @ py ''-'' @ email b"
      by (simp add: uid_line_def py_def)
  qed
  show ?thesis using t2 same keys uid line by blast
qed

text \<open>The theorem at the record of the end-to-end example, for two clocks.\<close>

theorem build_ics_deterministic_witness:
  "\<exists>t1 t2. build_ics (utcnow demo_env) jane_booking = Inr t1 \<and>
     build_ics june_1st_10h jane_booking = Inr t2 \<and>
     filter (\<lambda>l. \<not> startswith (py ''DTSTAMP:'') l) (split_nl t1) =
     filter (\<lambda>l. \<not> startswith (py ''DTSTAMP:'') l) (split_nl t2) \<and>
     filter (startswith (py ''UID:'')) (split_nl t1) = filter (startswith (py ''UID:'')) (split_nl t2) \<and>
     split_nl t1 ! 4 = py ''UID:booking-20250601T100000-jane@example.com''"
proof -
  have p: "plus_one_hour (preferred_datetime jane_booking) = Inr (june_1st_10h\<lparr>hour := 11\<rparr>)"
    by (simp add: jane_booking_def plus_one_hour_june)
  obtain t1 where t1: "build_ics (utcnow demo_env) jane_booking = Inr t1"
    using build_ics_cases[of jane_booking "utcnow demo_env"] p by auto
  have k: "py ''UID:'' \<in> set event_keys" by (simp add: event_keys_def)
  have n: "10 \<notin> set (email jane_booking)" by (simp add: jane_booking_def py_def)
  from build_ics_deterministic[OF t1, of june_1st_10h] k n obtain t2 where
    t2: "build_ics june_1st_10h jane_booking = Inr t2" and
    f: "filter (\<lambda>l. \<not> startswith (py ''DTSTAMP:'') l) (split_nl t1) =
        filter (\<lambda>l. \<not> startswith (py ''DTSTAMP:'') l) (split_nl t2)" and
    u: "filter (startswith (py ''UID:'')) (split_nl t1) =
        filter (startswith (py ''UID:'')) (split_nl t2)" and
    l: "split_nl t1 ! 4 =
        py ''UID:booking-'' @ strftime (preferred_datetime jane_booking) @ py ''-'' @
        email jane_booking"
    by blast
  have "py ''UID:booking-'' @ strftime (preferred_datetime jane_booking) @ py ''-'' @
        email jane_booking = py ''UID:booking-20250601T100000-jane@example.com''"
    by (simp add: jane_booking_def strftime_june) (simp add: py_def)
  with l have "split_nl t1 ! 4 = py ''UID:booking-20250601T100000-jane@example.com''"
    by simp
  with t1 t2 f u show ?thesis by blast
qed

section \<open>Validation and the date step\<close>


lemma coerce_other_keys:
  assumes "coerce_preferred_datetime p = Inr p'" and "k \<noteq> py ''preferred_datetime''"
  shows "p' k = p k"
  using assms
  by (auto simp add: coerce_preferred_datetime_def split: option.splits pyval.splits)

lemma coerce_text:
  assumes "p (py ''preferred_datetime'') = Some (VStr s)"
  shows "coerce_preferred_datetime p =
    (case fromisoformat s of None \<Rightarrow> Inl bad_format
     | Some d \<Rightarrow> Inr (p(py ''preferred_datetime'' \<mapsto> VDatetime d)))"
  using assms by (simp add: coerce_preferred_datetime_def)

lemma coerce_not_text:
  assumes "\<And>s. p (py ''preferred_datetime'') \<noteq> Some (VStr s)"
  shows "coerce_preferred_datetime p = Inr p"
  using assms
  by (auto simp add: coerce_preferred_datetime_def split: option.splits pyval.splits)

lemma set_field_errors: "set (field_errors f r) = {(f, e) |e. error_of r = Some e}"
  by (cases r) (simp_all add: field_errors_def error_of_def)

lemma Booking_Inl:
  assumes "Booking E p = Inl errors"
  shows "errors =
     field_errors (py ''name'') (validate_str (lax_str E) 2 100 (p (py ''name''))) @
     field_errors (py ''phone'') (validate_str (lax_str E) 7 20 (p (py ''phone''))) @
     field_errors (py ''email'') (validate_EmailStr (validate_email E) (lax_str E) (p (py ''email''))) @
     field_errors (py ''service'') (validate_literal services (p (py ''service''))) @
     field_errors (py ''preferred_datetime'')
       (validate_datetime (lax_datetime E) (p (py ''preferred_datetime''))) @
     field_errors (py ''notes'') (validate_notes (lax_str E) (p (py ''notes''))) @
     field_errors (py ''status'') (validate_status (p (py ''status'')))"
  using assms by (simp add: Booking_def Let_def split: if_splits)



lemma field_errors_Nil: "field_errors f r = [] \<Longrightarrow> \<exists>v. r = Inr v"
  by (cases r) (simp_all add: field_errors_def)

lemma Booking_Inr:
  assumes "Booking E p = Inr b"
  shows "validate_str (lax_str E) 2 100 (p (py ''name'')) = Inr (name b)"
    and "validate_str (lax_str E) 7 20 (p (py ''phone'')) = Inr (phone b)"
    and "validate_EmailStr (validate_email E) (lax_str E) (p (py ''email'')) = Inr (email b)"
    and "validate_literal services (p (py ''service'')) = Inr (service b)"
    and "validate_datetime (lax_datetime E) (p (py ''preferred_datetime'')) =
           Inr (preferred_datetime b)"
    and "validate_notes (lax_str E) (p (py ''notes'')) = Inr (notes b)"
    and "validate_status (p (py ''status'')) = Inr (status b)"
  using assms
  by (auto simp add: Booking_def Let_def split: if_splits dest!: field_errors_Nil)

lemma Booking_agree:
  assumes "\<forall>k \<in> set booking_fields. p k = q k"
  shows "Booking E p = Booking E q"
  using assms by (simp add: Booking_def booking_fields_def)

lemma coerce_agree:
  assumes "\<forall>k \<in> set booking_fields. p k = q k"
  shows "(\<exists>r. coerce_preferred_datetime p = Inl r \<and> coerce_preferred_datetime q = Inl r) \<or>
         (\<exists>p' q'. coerce_preferred_datetime p = Inr p' \<and> coerce_preferred_datetime q = Inr q' \<and>
            (\<forall>k \<in> set booking_fields. p' k = q' k))"
proof -
  have pd: "p (py ''preferred_datetime'') = q (py ''preferred_datetime'')"
    using assms by (simp add: booking_fields_def)
  show ?thesis
    using assms pd
    by (auto simp add: coerce_preferred_datetime_def split: option.splits pyval.splits)
qed

section \<open>The request of the example\<close>

lemmas parser_defs = fromisoformat_def find_separator_def at_def parse_isoformat_date_def
  parse_digits_def is_digit_def parse_isoformat_time_def parse_hh_mm_ss_ff_def
  after_component_def parse_fraction_def is_tz_char_def valid_datetime_def days_in_month_def
  Let_def

lemma fromisoformat_june: "fromisoformat (py ''2025-06-01T10:00:00'') = Some june_1st_10h"
  by (simp add: parser_defs py_def june_1st_10h_def)

lemma fromisoformat_not_a_date: "fromisoformat (py ''not-a-date'') = None"
  by (simp add: parser_defs py_def)

lemma jane_fields:
  "jane_payload (py ''name'') = Some (VStr (py ''Jane Doe''))"
  "jane_payload (py ''phone'') = Some (VStr (py ''1234567890''))"
  "jane_payload (py ''email'') = Some (VStr (py ''jane@example.com''))"
  "jane_payload (py ''service'') = Some (VStr (py ''Facials''))"
  "jane_payload (py ''preferred_datetime'') = Some (VStr (py ''2025-06-01T10:00:00''))"
  "jane_payload (py ''notes'') = None"
  "jane_payload (py ''status'') = None"
  by (simp_all add: jane_payload_def py_def)

lemma key_neq:
  "py ''name'' \<noteq> py ''preferred_datetime''"
  "py ''phone'' \<noteq> py ''preferred_datetime''"
  "py ''email'' \<noteq> py ''preferred_datetime''"
  "py ''service'' \<noteq> py ''preferred_datetime''"
  "py ''notes'' \<noteq> py ''preferred_datetime''"
  "py ''status'' \<noteq> py ''preferred_datetime''"
  "py ''name'' \<noteq> py ''status''"
  "py ''phone'' \<noteq> py ''status''"
  "py ''email'' \<noteq> py ''status''"
  "py ''service'' \<noteq> py ''status''"
  "py ''notes'' \<noteq> py ''status''"
  "py ''preferred_datetime'' \<noteq> py ''status''"
  "py ''name'' \<noteq> py ''service''"
  "py ''phone'' \<noteq> py ''service''"
  "py ''email'' \<noteq> py ''service''"
  "py ''notes'' \<noteq> py ''service''"
  "py ''status'' \<noteq> py ''service''"
  "py ''preferred_datetime'' \<noteq> py ''service''"
  "py ''phone'' \<noteq> py ''name''"
  "py ''email'' \<noteq> py ''name''"
  "py ''service'' \<noteq> py ''name''"
  "py ''notes'' \<noteq> py ''name''"
  "py ''status'' \<noteq> py ''name''"
  "py ''preferred_datetime'' \<noteq> py ''name''"
  by (simp_all add: py_def)

lemma validate_jane:
  "validate_str l 2 100 (Some (VStr (py ''Jane Doe''))) = Inr (py ''Jane Doe'')"
  "validate_str l 7 20 (Some (VStr (py ''1234567890''))) = Inr (py ''1234567890'')"
  "validate_literal services (Some (VStr (py ''Facials''))) = Inr (py ''Facials'')"
  "validate_notes l None = Inr None"
  "validate_status None = Inr (py ''pending'')"
  by (simp_all add: validate_str_def to_text_def validate_literal_def validate_notes_def
      validate_status_def services_def py_def)

lemma coerce_jane:
  "coerce_preferred_datetime jane_payload =
     Inr (jane_payload(py ''preferred_datetime'' \<mapsto> VDatetime june_1st_10h))"
  by (simp add: coerce_preferred_datetime_def jane_fields(5) fromisoformat_june)

lemma Booking_jane:
  assumes "validate_email E (py ''jane@example.com'') = Some (py ''jane@example.com'')"
  shows "Booking E (jane_payload(py ''preferred_datetime'' \<mapsto> VDatetime june_1st_10h)) =
         Inr jane_booking"
  using assms
  by (simp add: Booking_def jane_fields key_neq validate_jane validate_EmailStr_def to_text_def
      validate_datetime_def field_errors_def jane_booking_def)

lemma demo_env_email:
  "validate_email demo_env (py ''jane@example.com'') = Some (py ''jane@example.com'')"
  by (simp add: demo_env_def has_at_sign_def py_def)

section \<open>The claims about the endpoint\<close>

text \<open>
  Claim C1. For the request of the example, when the e-mail check accepts the
  address as it is and \<open>create_document\<close> returns an identifier for the record, the
  response is the success response with that identifier as \<open>booking_id\<close>, and the
  invite has the lines \<open>DTSTART:20250601T100000\<close> and \<open>DTEND:20250601T110000\<close>.
\<close>

theorem jane_doe_end_to_end:
  assumes "validate_email E (py ''jane@example.com'') = Some (py ''jane@example.com'')"
    and "create_document E (py ''booking'') jane_booking = Inr new_id"
  shows "\<exists>t. create_booking E jane_payload =
           (JSONResponse (py ''success'') success_message new_id t,
            [CreateDocument (py ''booking'') jane_booking, UtcNow]) \<and>
         py ''DTSTART:20250601T100000'' \<in> set (split_nl t) \<and>
         py ''DTEND:20250601T110000'' \<in> set (split_nl t)"
proof -
  have p: "preferred_datetime jane_booking = june_1st_10h" by (simp add: jane_booking_def)
  have "plus_one_hour (preferred_datetime jane_booking) = Inr (june_1st_10h\<lparr>hour := 11\<rparr>)"
    unfolding p by (rule plus_one_hour_june)
  with build_ics_cases[of jane_booking "utcnow E"] obtain t where
    t: "build_ics (utcnow E) jane_booking = Inr t" by auto
  from build_ics_event_lines[OF t] obtain end_dt where
    e: "plus_one_hour (preferred_datetime jane_booking) = Inr end_dt" and
    s: "py ''DTSTART:'' @ strftime (preferred_datetime jane_booking) \<in> set (split_nl t)" and
    f: "py ''DTEND:'' @ strftime end_dt \<in> set (split_nl t)"
    by blast
  have end_dt: "end_dt = june_1st_10h\<lparr>hour := 11\<rparr>"
    using e unfolding p by (simp add: plus_one_hour_june)
  have s': "py ''DTSTART:20250601T100000'' \<in> set (split_nl t)"
    using s unfolding p strftime_june by (simp add: py_def)
  have f': "py ''DTEND:20250601T110000'' \<in> set (split_nl t)"
    using f unfolding end_dt strftime_june_11 by (simp add: py_def)
  have "create_booking E jane_payload =
           (JSONResponse (py ''success'') success_message new_id t,
            [CreateDocument (py ''booking'') jane_booking, UtcNow])"
    by (simp add: create_booking_def coerce_jane Booking_jane[OF assms(1)] assms(2) t)
  with s' f' show ?thesis by blast
qed


text \<open>
  The theorem in the environment of the examples.
\<close>

theorem jane_doe_end_to_end_witness:
  "\<exists>t. create_booking demo_env jane_payload =
           (JSONResponse (py ''success'') success_message (py ''abc123'') t,
            [CreateDocument (py ''booking'') jane_booking, UtcNow]) \<and>
         py ''DTSTART:20250601T100000'' \<in> set (split_nl t) \<and>
         py ''DTEND:20250601T110000'' \<in> set (split_nl t)"
proof -
  have c: "create_document demo_env (py ''booking'') jane_booking = Inr (py ''abc123'')"
    by (simp add: demo_env_def)
  show ?thesis using jane_doe_end_to_end[OF demo_env_email c] .
qed

lemma Booking_error_fields:
  assumes "Booking E p = Inl errors"
  shows "fst ` set errors \<subseteq> set booking_fields"
  unfolding Booking_Inl[OF assms]
  by (auto simp add: set_field_errors booking_fields_def)

lemma values_at_agree:
  assumes "\<forall>k \<in> set fs. p k = q k"
  shows "values_at p fs = values_at q fs"
  using assms by (induction fs) (simp_all add: values_at_def)

lemma echoed_input_agree:
  assumes "\<forall>k \<in> set booking_fields. p k = q k" and "fst e \<in> set booking_fields"
  shows "echoed_input p e = echoed_input q e"
proof -
  have "values_at p booking_fields = values_at q booking_fields"
    using assms(1) by (rule values_at_agree)
  moreover have "values_at p [fst e] = values_at q [fst e]"
    using assms by (intro values_at_agree) simp
  ultimately show ?thesis by (simp add: echoed_input_def)
qed

lemma detail_encodable_agree:
  assumes "\<forall>k \<in> set booking_fields. p k = q k" and "fst ` set errors \<subseteq> set booking_fields"
  shows "detail_encodable p errors = detail_encodable q errors"
proof -
  have "echoed_input p e = echoed_input q e" if "e \<in> set errors" for e
    using assms that by (intro echoed_input_agree) auto
  then show ?thesis by (simp add: detail_encodable_def list_all_iff)
qed

text \<open>
  Claim C10. Two payloads that agree on the seven fields of the class get the same
  response and cause the same calls, whatever other keys they carry: an unknown key
  causes no validation error and reaches neither the record nor the response.
\<close>

theorem unknown_keys_ignored:
  assumes "\<forall>k \<in> set booking_fields. p k = q k"
  shows "create_booking E p = create_booking E q"
proof -
  from coerce_agree[OF assms] show ?thesis
  proof
    assume "\<exists>r. coerce_preferred_datetime p = Inl r \<and> coerce_preferred_datetime q = Inl r"
    then show ?thesis by (auto simp add: create_booking_def)
  next
    assume "\<exists>p' q'. coerce_preferred_datetime p = Inr p' \<and>
       coerce_preferred_datetime q = Inr q' \<and> (\<forall>k \<in> set booking_fields. p' k = q' k)"
    then obtain p' q' where c: "coerce_preferred_datetime p = Inr p'"
      "coerce_preferred_datetime q = Inr q'" and a: "\<forall>k \<in> set booking_fields. p' k = q' k"
      by blast
    have B: "Booking E p' = Booking E q'" using a by (rule Booking_agree)
    show ?thesis
    proof (cases "Booking E q'")
      case (Inl errors)
      then have "Booking E p' = Inl errors" using B by simp
      then have "fst ` set errors \<subseteq> set booking_fields" by (rule Booking_error_fields)
      with a have "detail_encodable p' errors = detail_encodable q' errors"
        by (rule detail_encodable_agree)
      then show ?thesis using c B Inl by (simp add: create_booking_def)
    next
      case (Inr b)
      then show ?thesis using c B by (simp add: create_booking_def)
    qed
  qed
qed

text \<open>
  Claim C4. When \<open>preferred_datetime\<close> is a text that does not parse, the request ends
  with status 400 and the fixed message, whatever the other fields are, and no
  collaborator is called.
\<close>

theorem bad_date_text_400:
  assumes "payload (py ''preferred_datetime'') = Some (VStr s)" and "fromisoformat s = None"
  shows "create_booking E payload =
    (HTTPException 400 (Text (py ''Invalid preferred_datetime format. Use ISO 8601.'')), [])"
  using assms by (simp add: create_booking_def coerce_text bad_format_def)

text \<open>
  Claim C8. When the payload passes the date step and validates to a record, and
  \<open>create_document\<close> raises for that record, the request ends with status 500 and the
  detail \<open>Database error: \<close> followed by the message of the exception. The only call
  made is that one \<open>create_document\<close>: nothing is retried, and the clock of \<open>build_ics\<close>
  is not read.
\<close>

theorem persistence_failure_500:
  assumes "coerce_preferred_datetime payload = Inr p" and "Booking E p = Inr b"
    and "create_document E (py ''booking'') b = Inl e"
  shows "create_booking E payload =
    (HTTPException 500 (Text (py ''Database error: '' @ exn_str e)),
     [CreateDocument (py ''booking'') b])"
  using assms by (simp add: create_booking_def)







section \<open>The status of a new record\<close>

lemma create_booking_calls:
  assumes "CreateDocument c b \<in> set (snd (create_booking E payload))"
  shows "\<exists>p. coerce_preferred_datetime payload = Inr p \<and> Booking E p = Inr b"
  using assms by (auto simp add: create_booking_def split: sum.splits)

text \<open>
  Claim C2, as amended. The record handed to \<open>create_document\<close> has the status
  \<open>pending\<close> when the payload has no key \<open>status\<close>; when the payload has one, its value
  is one of the texts \<open>pending\<close>, \<open>confirmed\<close> and \<open>failed\<close>, and the record has that value.
\<close>

theorem status_default_or_given:
  assumes "CreateDocument c b \<in> set (snd (create_booking E payload))"
  shows "(case payload (py ''status'') of
            None \<Rightarrow> status b = py ''pending''
          | Some v \<Rightarrow> v = VStr (status b) \<and> status b \<in> set statuses)"
proof -
  from create_booking_calls[OF assms] obtain p where
    c: "coerce_preferred_datetime payload = Inr p" and B: "Booking E p = Inr b" by blast
  have "p (py ''status'') = payload (py ''status'')"
    using c key_neq(6) by (rule coerce_other_keys)
  with Booking_Inr(7)[OF B] show ?thesis
    by (auto simp add: validate_status_def validate_literal_def
        split: option.splits pyval.splits if_splits)
qed

text \<open>
  The theorem at the request of the example, which has no key \<open>status\<close>.
\<close>

theorem status_default_or_given_witness:
  "CreateDocument (py ''booking'') jane_booking \<in> set (snd (create_booking demo_env jane_payload)) \<and>
   jane_payload (py ''status'') = None \<and> status jane_booking = py ''pending''"
proof -
  have c: "create_document demo_env (py ''booking'') jane_booking = Inr (py ''abc123'')"
    by (simp add: demo_env_def)
  have "plus_one_hour (preferred_datetime jane_booking) = Inr (june_1st_10h\<lparr>hour := 11\<rparr>)"
    by (simp add: jane_booking_def plus_one_hour_june)
  with build_ics_cases[of jane_booking "utcnow demo_env"] obtain t where
    t: "build_ics (utcnow demo_env) jane_booking = Inr t" by auto
  have m: "CreateDocument (py ''booking'') jane_booking
        \<in> set (snd (create_booking demo_env jane_payload))"
    by (simp add: create_booking_def coerce_jane Booking_jane[OF demo_env_email] c t)
  from status_default_or_given[OF m] show ?thesis
    using m by (simp add: jane_fields(7))
qed

lemma validate_status_confirmed:
  "validate_status (Some (VStr (py ''confirmed''))) = Inr (py ''confirmed'')"
  by (simp add: validate_status_def validate_literal_def statuses_def py_def)

lemma demo_env_store: "create_document demo_env c b = Inr (py ''abc123'')"
  by (simp add: demo_env_def)

lemma Booking_confirmed:
  "Booking demo_env (confirmed_payload(py ''preferred_datetime'' \<mapsto> VDatetime june_1st_10h)) =
     Inr (jane_booking\<lparr>status := py ''confirmed''\<rparr>)"
  using demo_env_email
  by (simp add: Booking_def confirmed_payload_def jane_fields key_neq validate_jane
      validate_EmailStr_def to_text_def validate_datetime_def field_errors_def jane_booking_def
      validate_status_confirmed)

text \<open>
  Claim C2 as stated fails: the request of the example with the further key
  \<open>status\<close> set to \<open>confirmed\<close> is accepted, and the record handed to \<open>create_document\<close> has
  the status \<open>confirmed\<close>, not \<open>pending\<close>.
\<close>

theorem client_status_is_persisted:
  "confirmed_payload (py ''status'') = Some (VStr (py ''confirmed'')) \<and>
   take 1 (snd (create_booking demo_env confirmed_payload)) =
     [CreateDocument (py ''booking'') (jane_booking\<lparr>status := py ''confirmed''\<rparr>)] \<and>
   py ''confirmed'' \<noteq> py ''pending''"
proof -
  have f: "confirmed_payload (py ''preferred_datetime'') = Some (VStr (py ''2025-06-01T10:00:00''))"
    by (simp add: confirmed_payload_def jane_fields key_neq)
  have c: "coerce_preferred_datetime confirmed_payload =
      Inr (confirmed_payload(py ''preferred_datetime'' \<mapsto> VDatetime june_1st_10h))"
    by (simp add: coerce_preferred_datetime_def f fromisoformat_june)
  have "take 1 (snd (create_booking demo_env confirmed_payload)) =
     [CreateDocument (py ''booking'') (jane_booking\<lparr>status := py ''confirmed''\<rparr>)]"
    by (simp add: create_booking_def c Booking_confirmed demo_env_store split: sum.splits)
  moreover have "confirmed_payload (py ''status'') = Some (VStr (py ''confirmed''))"
    by (simp add: confirmed_payload_def)
  moreover have "py ''confirmed'' \<noteq> py ''pending''" by (simp add: py_def)
  ultimately show ?thesis by simp
qed

section \<open>The claims at the examples\<close>







text \<open>
  The part of the listed violations that the amended claim leaves open: the request
  of the example without its \<open>name\<close> fails validation with an entry for the missing
  field, which echoes the payload and with it the parsed \<open>datetime\<close>. The detail
  cannot be encoded, and the request ends with \<open>TypeError\<close> instead of status 422.
\<close>

lemma validate_str_missing: "validate_str l lo hi None = Inl Missing"
  by (simp add: validate_str_def)

lemma missing_field_after_parsed_date:
  "create_booking demo_env no_name_payload =
     (Unhandled (TypeError (py ''Object of type datetime is not JSON serializable'')), [])"
proof -
  have f: "no_name_payload (py ''preferred_datetime'') = Some (VStr (py ''2025-06-01T10:00:00''))"
    by (simp add: no_name_payload_def jane_fields key_neq)
  have c: "coerce_preferred_datetime no_name_payload =
      Inr (no_name_payload(py ''preferred_datetime'' \<mapsto> VDatetime june_1st_10h))"
    by (simp add: coerce_preferred_datetime_def f fromisoformat_june)
  have B: "Booking demo_env (no_name_payload(py ''preferred_datetime'' \<mapsto> VDatetime june_1st_10h)) =
      Inl [(py ''name'', Missing)]"
    using demo_env_email validate_str_missing[of "lax_str demo_env" 2 100]
    by (simp add: Booking_def no_name_payload_def jane_fields key_neq validate_jane
        validate_EmailStr_def to_text_def validate_datetime_def field_errors_def)
  have n: "\<not> detail_encodable
      (no_name_payload(py ''preferred_datetime'' \<mapsto> VDatetime june_1st_10h))
      [(py ''name'', Missing)]"
    by (simp add: detail_encodable_def echoed_input_def values_at_def booking_fields_def
        no_name_payload_def key_neq)
  show ?thesis by (simp add: create_booking_def c B n)
qed


text \<open>
  The theorem of claim C4 at the request of the example with the date \<open>not-a-date\<close>.
\<close>

theorem bad_date_text_400_witness:
  "not_a_date_payload (py ''preferred_datetime'') = Some (VStr (py ''not-a-date'')) \<and>
   fromisoformat (py ''not-a-date'') = None \<and>
   create_booking demo_env not_a_date_payload =
     (HTTPException 400 (Text (py ''Invalid preferred_datetime format. Use ISO 8601.'')), [])"
proof -
  have d: "not_a_date_payload (py ''preferred_datetime'') = Some (VStr (py ''not-a-date''))"
    by (simp add: not_a_date_payload_def)
  from bad_date_text_400[of not_a_date_payload "py ''not-a-date''" demo_env,
      OF d fromisoformat_not_a_date] d fromisoformat_not_a_date
  show ?thesis by simp
qed

lemma failing_env_email:
  "validate_email failing_env (py ''jane@example.com'') = Some (py ''jane@example.com'')"
  by (simp add: failing_env_def demo_env_def has_at_sign_def py_def)

lemma failing_env_store:
  "create_document failing_env c b = Inl (Exception (py ''connection refused''))"
  by (simp add: failing_env_def)

text \<open>
  The theorem of claim C8 at the request of the example, with a store that raises
  \<open>connection refused\<close>.
\<close>

theorem persistence_failure_500_witness:
  "create_booking failing_env jane_payload =
     (HTTPException 500 (Text (py ''Database error: connection refused'')),
      [CreateDocument (py ''booking'') jane_booking])"
  using persistence_failure_500[OF coerce_jane Booking_jane[OF failing_env_email] failing_env_store]
  by (simp add: py_def)


text \<open>
  The theorem of claim C10 at the request of the example with a further key \<open>coupon\<close>.
\<close>

theorem unknown_keys_ignored_witness:
  "coupon_payload (py ''coupon'') = Some (VStr (py ''SPRING'')) \<and>
   jane_payload (py ''coupon'') = None \<and>
   create_booking demo_env coupon_payload = create_booking demo_env jane_payload"
proof -
  have a: "\<forall>k \<in> set booking_fields. coupon_payload k = jane_payload k"
    by (simp add: booking_fields_def coupon_payload_def py_def)
  have "jane_payload (py ''coupon'') = None" by (simp add: jane_payload_def py_def)
  moreover have "coupon_payload (py ''coupon'') = Some (VStr (py ''SPRING''))"
    by (simp add: coupon_payload_def)
  ultimately show ?thesis using unknown_keys_ignored[OF a, of demo_env] by simp
qed

lemma fromisoformat_last_hour: "fromisoformat (py ''9999-12-31T23:30:00'') = Some last_hour"
  by (simp add: parser_defs py_def last_hour_def)

lemma coerce_last_hour:
  "coerce_preferred_datetime last_hour_payload =
     Inr (last_hour_payload(py ''preferred_datetime'' \<mapsto> VDatetime last_hour))"
  by (simp add: coerce_preferred_datetime_def last_hour_payload_def fromisoformat_last_hour)

lemma Booking_last_hour:
  "Booking demo_env (last_hour_payload(py ''preferred_datetime'' \<mapsto> VDatetime last_hour)) =
     Inr last_hour_booking"
  using demo_env_email
  by (simp add: Booking_def last_hour_payload_def jane_fields key_neq validate_jane
      validate_EmailStr_def to_text_def validate_datetime_def field_errors_def jane_booking_def
      last_hour_booking_def)

lemma build_ics_last_hour:
  "build_ics now last_hour_booking = Inl (OverflowError (py ''date value out of range''))"
  by (simp add: last_hour_booking_def last_hour_def build_ics_def plus_one_hour_def
      days_in_month_def)

text \<open>
  Claim C5 as stated fails. The request for 9999-12-31T23:30:00 passes the date step
  and validates to a record with a valid timestamp. For that record the addition
  of the hour overflows: \<open>build_ics\<close> raises \<open>OverflowError\<close> and produces no invite, and
  the request ends with that exception after the record was handed to
  \<open>create_document\<close>.
\<close>

theorem build_ics_last_hour_raises:
  "coerce_preferred_datetime last_hour_payload =
     Inr (last_hour_payload(py ''preferred_datetime'' \<mapsto> VDatetime last_hour)) \<and>
   Booking demo_env (last_hour_payload(py ''preferred_datetime'' \<mapsto> VDatetime last_hour)) =
     Inr last_hour_booking \<and>
   valid_datetime (preferred_datetime last_hour_booking) \<and>
   build_ics (utcnow demo_env) last_hour_booking =
     Inl (OverflowError (py ''date value out of range'')) \<and>
   create_booking demo_env last_hour_payload =
     (Unhandled (OverflowError (py ''date value out of range'')),
      [CreateDocument (py ''booking'') last_hour_booking])"
proof -
  have v: "valid_datetime (preferred_datetime last_hour_booking)"
    by (simp add: last_hour_booking_def last_hour_def valid_datetime_def days_in_month_def)
  have c: "create_booking demo_env last_hour_payload =
     (Unhandled (OverflowError (py ''date value out of range'')),
      [CreateDocument (py ''booking'') last_hour_booking])"
    by (simp add: create_booking_def coerce_last_hour Booking_last_hour demo_env_store
        build_ics_last_hour)
  show ?thesis using coerce_last_hour Booking_last_hour v build_ics_last_hour c by simp
qed

section \<open>The claim about the diagnostics route\<close>

text \<open>
  Claim C9. For every outcome of the import of the storage handle, of reading its
  name and of listing its collections, and for every environment, \<open>test_database\<close>
  returns its dict and raises nothing. The dict reports the two environment
  variables, and the field \<open>database\<close> describes the outcome of the probe: an
  exception is rendered as text, with at most fifty characters of its message.
\<close>

theorem test_database_always_returns:
  "\<exists>r. test_database import_db getenv = Inr r \<and>
       backend r = check_mark @ py '' Running'' \<and>
       database_url r = Some (set_or_not (getenv (py ''DATABASE_URL''))) \<and>
       database_name r = Some (set_or_not (getenv (py ''DATABASE_NAME''))) \<and>
       (case import_db of
          Inl (ImportError m) \<Rightarrow>
            database r =
              cross_mark @ py '' Database module not found (run enable-database first)''
        | Inl e \<Rightarrow> database r = cross_mark @ py '' Error: '' @ take 50 (exn_str e)
        | Inr None \<Rightarrow> database r = warning_sign @ py ''  Available but not initialized''
        | Inr (Some db) \<Rightarrow>
            (case db_name db of
               Some (Inl (ImportError m)) \<Rightarrow>
                 database r =
                   cross_mark @ py '' Database module not found (run enable-database first)''
             | Some (Inl e) \<Rightarrow> database r = cross_mark @ py '' Error: '' @ take 50 (exn_str e)
             | _ \<Rightarrow>
                 (case list_collection_names db of
                    Inl e \<Rightarrow>
                      database r =
                        warning_sign @ py ''  Connected but Error: '' @ take 50 (exn_str e)
                  | Inr names \<Rightarrow>
                      database r = check_mark @ py '' Connected & Working'' \<and>
                      collections r = take 10 names)))"
  by (simp add: test_database_def probe_database_def probe_collections_def initial_response_def
      Let_def split: sum.splits option.splits exn.splits)

lemma test_database_broken_db:
  "test_database (Inr (Some broken_db)) (\<lambda>k. None) =
   Inr \<lparr>backend = check_mark @ py '' Running'',
        database = warning_sign @ py ''  Connected but Error: server selection timeout'',
        database_url = Some (cross_mark @ py '' Not Set''),
        database_name = Some (cross_mark @ py '' Not Set''),
        connection_status = py ''Connected'',
        collections = []\<rparr>"
  by (simp add: test_database_def probe_database_def probe_collections_def initial_response_def
      broken_db_def set_or_not_def truthy_def Let_def py_def)

end
